theory Spec2Isabelle
  imports Main "HOL-Library.Word"
begin

section \<open>Data model of the p2p service\<close>

text \<open>
  The Go package \<^verbatim>\<open>p2p\<close> is a thin orchestration layer over external collaborators
  (libp2p host, peer store, syncer, logger).  A Go pointer or interface value that may be
  \<^verbatim>\<open>nil\<close> is an \<open>option\<close>; a Go pair \<^verbatim>\<open>(value, err)\<close> is a pair whose second
  component is an \<open>error option\<close>; a run-time panic is a value of the outcome type.
  What a method does to the outside world (logging, closing a stream, writing bytes,
  firing the cancellation function, starting a goroutine) is recorded, in order, in a
  list of events returned next to the result.
\<close>

type_synonym byte = "8 word"

text \<open>Instants (\<^verbatim>\<open>time.Time\<close>) and durations, in nanoseconds.\<close>
type_synonym time = int

datatype error =
    ErrNoConfig
  | ErrNoChainService
  | ErrUninitializedService
  | ErrNoHost
  | ErrNoPeersService
  | errors_New string
  | io_EOF
  | ExternalError string

text \<open>\<^verbatim>\<open>clienttypes.InterfacePeer\<close>: the identity the methods \<^verbatim>\<open>GetID()\<close> and
  \<^verbatim>\<open>Cfg().Peer.ID\<close> report.  What the stateful methods (\<^verbatim>\<open>IsActive\<close>,
  \<^verbatim>\<open>IsWritable\<close>, \<^verbatim>\<open>AddConnection\<close>) answer belongs to the environment.\<close>
record peer =
  GetID :: string
  Cfg_Peer_ID :: string

record peerInfo =
  pi_ID :: string
  pi_Addrs :: "string list"

record knownPeer =
  kp_Peer :: "peer option"

text \<open>The handle of the network host held in the node's state.  What the live host
  answers to \<^verbatim>\<open>Addrs()\<close> is not part of the handle: it is asked of the environment at
  each call.\<close>

record host =
  host_ID :: string

record p2pConfig =
  Address :: string
  Pub :: string
  Priv :: string
  Context :: nat

record configClient =
  P2P :: "p2pConfig option"

record state =
  Chain :: "nat option"
  Config :: "configClient option"
  SyncState :: "unit option"
  Peers :: "nat option"
  Host :: "host option"

record queuedPeer =
  Peer :: "peer option"
  NextDial :: time

text \<open>The \<^verbatim>\<open>P2P\<close> struct.  \<^verbatim>\<open>dialQueue\<close> is a Go map from a peer's ID to a pointer
  to a \<^verbatim>\<open>QueuedPeer\<close>; the pointer stored under a key may itself be nil.\<close>
record p2p =
  state :: "state option"
  cfg :: "configClient option"
  ctx :: nat
  ch :: nat
  sync :: "nat option"
  cancel :: "nat option"
  dialQueue :: "string \<rightharpoonup> queuedPeer option"

datatype event =
    LogError string
  | LogWarn string
  | LogInfo string
  | CancelCalled nat
  | StreamClosed
  | StreamWrote "byte list"
  | PeersAdd peerInfo
  | GoDialPeers "peer option"
  | Called string

datatype 'a outcome = Panicked | Returned 'a

section \<open>Construction and lifecycle\<close>

text \<open>\<^verbatim>\<open>New\<close>.  The constructors \<^verbatim>\<open>peers.New\<close> and \<^verbatim>\<open>sync.New\<close> live in other
  packages; their results are parameters.\<close>

definition New ::
  "nat \<Rightarrow> nat option \<Rightarrow> nat \<Rightarrow> configClient option \<Rightarrow> nat option \<Rightarrow>
   (configClient \<Rightarrow> nat option \<times> error option) \<Rightarrow>
   (nat \<Rightarrow> configClient \<Rightarrow> nat \<Rightarrow> nat option \<times> error option) \<Rightarrow>
   (error + p2p) \<times> event list" where
  "New ctx0 cancel0 ch0 cfg0 c peers_New sync_New =
     (case cfg0 of
        None \<Rightarrow> (Inl ErrNoConfig, [])
      | Some cf \<Rightarrow>
         (case P2P cf of
            None \<Rightarrow> (Inl (errors_New ''nil p2p config''), [])
          | Some _ \<Rightarrow>
             (case c of
                None \<Rightarrow> (Inl ErrNoChainService, [])
              | Some chain \<Rightarrow>
                 (case peers_New cf of
                    (prs, Some err) \<Rightarrow> (Inl err, [LogError ''[p2p] err creating new peers''])
                  | (prs, None) \<Rightarrow>
                     (case sync_New ctx0 cf chain of
                        (snc, Some err) \<Rightarrow> (Inl err, [LogError ''[p2p] err creating syncer''])
                      | (snc, None) \<Rightarrow>
                         (Inr \<lparr> state = Some \<lparr> Chain = Some chain, Config = Some cf,
                                               SyncState = Some (), Peers = prs, Host = None \<rparr>,
                                 cfg = Some cf, ctx = ctx0, ch = ch0, sync = snc,
                                 cancel = cancel0, dialQueue = Map.empty \<rparr>, []))))))"

text \<open>\<^verbatim>\<open>IsStarted\<close>.  \<open>addrs\<close> is what the hosts answer to \<^verbatim>\<open>Addrs()\<close> at the moment of
  the call.\<close>

definition IsStarted :: "(host \<Rightarrow> string list) \<Rightarrow> p2p \<Rightarrow> bool" where
  "IsStarted addrs p =
     (case state p of
        None \<Rightarrow> False
      | Some s \<Rightarrow>
         (case Host s of
            None \<Rightarrow> False
          | Some h \<Rightarrow> (if length (addrs h) = 0 then False else True)))"

text \<open>\<^verbatim>\<open>Stop\<close> assigns no field of the receiver; the node is returned as it is left, next
  to the error and the events.\<close>

definition Stop :: "p2p \<Rightarrow> error option \<times> p2p \<times> event list" where
  "Stop p =
     (case state p of
        None \<Rightarrow> (Some ErrUninitializedService, p, [])
      | Some s \<Rightarrow>
         (case Host s of
            None \<Rightarrow> (Some ErrNoHost, p, [])
          | Some h \<Rightarrow>
             (case cancel p of
                Some f \<Rightarrow> (None, p, [CancelCalled f])
              | None \<Rightarrow> (None, p, []))))"

text \<open>\<^verbatim>\<open>Start\<close>.  Every call into libp2p is an oracle of the environment: what the call
  would return.  After the three nil checks the first statement reads
  \<^verbatim>\<open>p.cfg.P2P.Pub\<close>, a field of the pointer \<^verbatim>\<open>p.cfg.P2P\<close>, which nothing has checked.\<close>

record startEnv =
  IDFromPublicKey :: "string \<Rightarrow> string \<times> error option"
  NewMultiaddr :: "string \<Rightarrow> string \<times> error option"
  AddPrivKey :: "error option"
  AddPubKey :: "error option"
  AddTransport :: "error option"
  AddListenAddr :: "error option"
  dht_New :: "error option"
  Bootstrap :: "error option"
  rhost_Wrap :: host
  NewMdnsService :: "error option"

text \<open>A run of fallible calls, each short-circuiting on its error after logging it:
  (name of the call, what it returns, the log line of its error branch).\<close>

fun runSteps :: "(string \<times> error option \<times> string) list \<Rightarrow> error option \<times> event list" where
  "runSteps [] = (None, [])"
| "runSteps ((name, None, msg) # rest) =
     (case runSteps rest of (e, evs) \<Rightarrow> (e, Called name # evs))"
| "runSteps ((name, Some err, msg) # rest) = (Some err, [Called name, LogError msg])"

definition Start :: "p2p \<Rightarrow> startEnv \<Rightarrow> (error option \<times> p2p) outcome \<times> event list" where
  "Start p env =
     (case cfg p of
        None \<Rightarrow> (Returned (Some (errors_New ''nil config''), p), [])
      | Some cf \<Rightarrow>
     (case state p of
        None \<Rightarrow> (Returned (Some (errors_New ''nil state''), p), [])
      | Some s \<Rightarrow>
     (case sync p of
        None \<Rightarrow> (Returned (Some (errors_New ''err nil sync''), p), [])
      | Some _ \<Rightarrow>
     (case P2P cf of
        None \<Rightarrow> (Panicked, [])
      | Some pc \<Rightarrow>
         (case runSteps
                 [(''libpeer.IDFromPublicKey'', snd (IDFromPublicKey env (Pub pc)),
                     ''[p2p] err generating peer id from public key''),
                  (''ma.NewMultiaddr'', snd (NewMultiaddr env (Address pc)),
                     ''[p2p] err parsing address''),
                  (''ps.AddPrivKey'', AddPrivKey env,
                     ''[p2p] err adding private keey to peer store''),
                  (''ps.AddPubKey'', AddPubKey env,
                     ''[p2p] err adding public key to peer store''),
                  (''swarmNet.AddTransport'', AddTransport env,
                     ''[p2p] err adding transport to swarmnet''),
                  (''swarmNet.AddListenAddr'', AddListenAddr env,
                     ''[p2p] err adding swarm listen addr to swarmnet''),
                  (''dht.New'', dht_New env, ''[p2p] err building dht service''),
                  (''dhtSvc.Bootstrap'', Bootstrap env, ''[p2p] err bootstrapping dht''),
                  (''discovery.NewMdnsService'', NewMdnsService env,
                     ''[p2p] err starting discover service'')] of
            (Some err, evs) \<Rightarrow> (Returned (Some err, p), evs)
          | (None, evs) \<Rightarrow>
              (Returned (None, p\<lparr> state := Some (s\<lparr> Host := Some (rhost_Wrap env) \<rparr>) \<rparr>),
               evs @ [Called ''discoverySvc.RegisterNotifee'', Called ''Network.Notify'']))))))"

section \<open>Streams\<close>

text \<open>A \<^verbatim>\<open>net.Stream\<close> as the handlers see it: the address of the remote side, the bytes
  it will deliver to \<^verbatim>\<open>Read\<close>, and the error \<^verbatim>\<open>Read\<close> reports once they are consumed
  (\<^verbatim>\<open>io.EOF\<close> when the remote closed, a deadline or transport error otherwise).\<close>

record stream =
  RemoteMultiaddr :: string
  inbound :: "byte list"
  readErr :: error

record handlerEnv =
  InfoFromP2pAddr :: "string \<Rightarrow> peerInfo option \<times> error option"
  Peers_Add :: "peerInfo \<Rightarrow> knownPeer option \<times> error option"
  IsWritable :: "peer \<Rightarrow> bool \<times> error option"

text \<open>The body of \<^verbatim>\<open>protocolHandler\<close> after its first statement, for a non-nil stream
  (the check \<^verbatim>\<open>stream == nil\<close> is then false).\<close>

definition protocolHandler_body :: "p2p \<Rightarrow> handlerEnv \<Rightarrow> stream \<Rightarrow> event list" where
  "protocolHandler_body p env st =
     (case state p of
        None \<Rightarrow> [LogError ''nil state'']
      | Some s \<Rightarrow>
     (case Peers s of
        None \<Rightarrow> [LogError ''nil peers'']
      | Some _ \<Rightarrow>
     (case InfoFromP2pAddr env (RemoteMultiaddr st) of
        (_, Some err) \<Rightarrow> [LogError ''[p2p] err getting info from multiaddr'']
      | (None, None) \<Rightarrow> [LogError ''nil pinfo'']
      | (Some pinfo, None) \<Rightarrow>
     (case Peers_Add env pinfo of
        (_, Some err) \<Rightarrow> [PeersAdd pinfo, LogError ''[p2p] err adding peer'']
      | (None, None) \<Rightarrow> [PeersAdd pinfo, LogError ''[p2p] known peer is null'']
      | (Some kp, None) \<Rightarrow>
     (case kp_Peer kp of
        None \<Rightarrow> [PeersAdd pinfo, LogError ''[p2p] known peer is null'']
      | Some pr \<Rightarrow>
     (case IsWritable env pr of
        (_, Some err) \<Rightarrow> [PeersAdd pinfo, LogError ''[p2p] err checking if peer is writable'']
      | (ok, None) \<Rightarrow>
          (if ok then [PeersAdd pinfo] else [PeersAdd pinfo, GoDialPeers (Some pr)])))))))"

text \<open>\<^verbatim>\<open>protocolHandler\<close>.  Its first statement is \<^verbatim>\<open>defer stream.Close()\<close>: the method
  value of an interface is evaluated when the defer statement runs, so a nil stream
  panics there, before any check.  For a non-nil stream the deferred call closes the
  stream after the body, whichever return the body took.\<close>

definition protocolHandler :: "p2p \<Rightarrow> handlerEnv \<Rightarrow> stream option \<Rightarrow> unit outcome \<times> event list" where
  "protocolHandler p env strm =
     (case strm of
        None \<Rightarrow> (Panicked, [])
      | Some st \<Rightarrow> (Returned (), protocolHandler_body p env st @ [StreamClosed]))"

text \<open>\<^verbatim>\<open>bufio.NewWriter\<close> allocates a buffer of 4096 bytes.\<close>

definition defaultBufSize :: nat where
  "defaultBufSize = 4096"

text \<open>\<^verbatim>\<open>io.Copy(w, r)\<close> from a \<^verbatim>\<open>bufio.Reader\<close> into a \<^verbatim>\<open>bufio.Writer\<close>, both over the
  stream, runs \<^verbatim>\<open>(*bufio.Writer).ReadFrom\<close> on the stream (the interface \<^verbatim>\<open>net.Stream\<close>
  declares no \<^verbatim>\<open>ReadFrom\<close> or \<^verbatim>\<open>WriteTo\<close> of its own): the stream's bytes are read into
  the free part of the writer's buffer; the buffer is written to the stream only when
  it is full; at end of stream a partly filled buffer stays in the writer, waiting for
  a \<^verbatim>\<open>Flush\<close>.  Each \<^verbatim>\<open>Read\<close> is taken to deliver as many of the pending bytes as fit;
  writes to the stream are taken to succeed.  Arguments: the buffered bytes, the bytes still to come, the error that
  follows them.  Result: the bytes left in the buffer, the writes made to the stream,
  the error returned.\<close>

function bufio_ReadFrom ::
  "byte list \<Rightarrow> byte list \<Rightarrow> error \<Rightarrow> byte list \<times> event list \<times> error option" where
  "bufio_ReadFrom buf rest term =
     (let flushed = (defaultBufSize \<le> length buf);
          buf1 = (if flushed then [] else buf);
          ws = (if flushed then [StreamWrote buf] else [])
      in if rest = [] then
           (if term = io_EOF then (buf1, ws, None) else (buf1, ws, Some term))
         else
           (let m = min (defaultBufSize - length buf1) (length rest)
            in case bufio_ReadFrom (buf1 @ take m rest) (drop m rest) term of
                 (b, ws', e) \<Rightarrow> (b, ws @ ws', e)))"
  by pat_completeness auto
termination
  by (relation "measure (\<lambda>(buf, rest, term). length rest)")
     (auto simp: defaultBufSize_def min_def split: if_splits)

text \<open>The bytes an event puts on the stream.\<close>

fun written :: "event \<Rightarrow> byte list" where
  "written (StreamWrote bs) = bs"
| "written _ = []"

text \<open>The body of \<^verbatim>\<open>pingHandler\<close> after \<^verbatim>\<open>defer stream.Close()\<close>, for a non-nil
  stream.  Nothing calls \<^verbatim>\<open>w.Flush()\<close>.\<close>

definition pingHandler_body :: "p2p \<Rightarrow> stream \<Rightarrow> event list" where
  "pingHandler_body p st =
     (case state p of
        None \<Rightarrow> [LogError ''nil state'']
      | Some s \<Rightarrow>
     (case Peers s of
        None \<Rightarrow> [LogError ''nil peers'']
      | Some _ \<Rightarrow>
     (case bufio_ReadFrom [] (inbound st) (readErr st) of
        (pending, ws, None) \<Rightarrow> ws
      | (pending, ws, Some err) \<Rightarrow> ws @ [LogError ''[p2p] err handling ping''])))"

definition pingHandler :: "p2p \<Rightarrow> stream option \<Rightarrow> unit outcome \<times> event list" where
  "pingHandler p strm =
     (case strm of
        None \<Rightarrow> (Panicked, [])
      | Some st \<Rightarrow> (Returned (), pingHandler_body p st @ [StreamClosed]))"

section \<open>Outbound ping\<close>

text \<open>What \<^verbatim>\<open>sendPingToPeer\<close> gets from the outside: the stream \<^verbatim>\<open>NewStream\<close> opens,
  the results of \<^verbatim>\<open>SetDeadline\<close>, of \<^verbatim>\<open>rand.Read\<close> (the byte it puts at each index
  of the 32-byte slice) and of the write that \<^verbatim>\<open>w.Flush()\<close> makes on the stream.\<close>

record pingEnv =
  NewStream :: "string \<Rightarrow> stream option \<times> error option"
  SetDeadline :: "error option"
  rand_Read :: "nat \<Rightarrow> byte"
  rand_Read_err :: "error option"
  Flush_err :: "error option"

text \<open>The read loop of \<^verbatim>\<open>sendPingToPeer\<close>.  \<^verbatim>\<open>b2\<close> is declared \<^verbatim>\<open>var b2 []byte\<close> and
  never allocated or appended to: the assignment \<^verbatim>\<open>b2[nb] = c\<close> is an index
  expression, which panics when \<^verbatim>\<open>nb\<close> is not below \<^verbatim>\<open>len(b2)\<close>.  Arguments: the bytes
  \<^verbatim>\<open>ReadByte\<close> will deliver, the error it reports after them, \<^verbatim>\<open>b2\<close> and \<^verbatim>\<open>nb\<close>.
  Result: a panic, the \<^verbatim>\<open>b2\<close> of a \<^verbatim>\<open>break\<close> or the error of the \<^verbatim>\<open>return err\<close>.\<close>

fun readPong :: "byte list \<Rightarrow> error \<Rightarrow> byte list \<Rightarrow> nat \<Rightarrow> (byte list + error) outcome" where
  "readPong (c # rest) term b2 nb =
     (if nb < length b2 then readPong rest term (b2[nb := c]) (nb + 1) else Panicked)"
| "readPong [] term b2 nb =
     (if term = io_EOF then Returned (Inl b2)
      else if 32 \<le> nb then Returned (Inl b2)
      else Returned (Inr term))"

text \<open>\<^verbatim>\<open>sendPingToPeer\<close> once the stream is open; the deferred \<^verbatim>\<open>stream.Close()\<close> is added
  by the caller below.\<close>

definition sendPing_body :: "pingEnv \<Rightarrow> stream \<Rightarrow> error option outcome \<times> event list" where
  "sendPing_body env st =
     (case SetDeadline env of
        Some err \<Rightarrow> (Returned (Some err), [])
      | None \<Rightarrow>
     (case rand_Read_err env of
        Some err \<Rightarrow> (Returned (Some err), [])
      | None \<Rightarrow>
     (let b = map (rand_Read env) [0..<32] in
      case Flush_err env of
        Some err \<Rightarrow> (Returned (Some err), [])
      | None \<Rightarrow>
     (case readPong (inbound st) (readErr st) [] 0 of
        Panicked \<Rightarrow> (Panicked, [StreamWrote b])
      | Returned (Inr err) \<Rightarrow> (Returned (Some err), [StreamWrote b])
      | Returned (Inl b2) \<Rightarrow>
          (if b = b2 then (Returned None, [StreamWrote b])
           else (Returned (Some (errors_New ''pong does not match ping'')),
                 [StreamWrote b, LogError ''[p2p] ping err'']))))))"

definition sendPingToPeer ::
  "p2p \<Rightarrow> pingEnv \<Rightarrow> peer option \<Rightarrow> error option outcome \<times> event list" where
  "sendPingToPeer p env pr0 =
     (case pr0 of
        None \<Rightarrow> (Returned (Some (errors_New ''cannot ping nil peer'')), [])
      | Some pr \<Rightarrow>
     (case state p of
        None \<Rightarrow> (Returned (Some (errors_New ''nil state'')), [])
      | Some s \<Rightarrow>
     (case Host s of
        None \<Rightarrow> (Returned (Some (errors_New ''nil host'')), [])
      | Some h \<Rightarrow>
     (case NewStream env (Cfg_Peer_ID pr) of
        (_, Some err) \<Rightarrow> (Returned (Some err), [])
      | (None, None) \<Rightarrow> (Panicked, [])
      | (Some st, None) \<Rightarrow>
          (case sendPing_body env st of (r, evs) \<Rightarrow> (r, evs @ [StreamClosed]))))))"

section \<open>Message dispatch\<close>

record message =
  Kind :: nat
  payload :: "byte list"

record onMessage =
  msg_Peer :: "peer option"
  Message :: "message option"

text \<open>A handler of the registry: its declared kind and its function.  The function
  acts on the world \<open>'w\<close> outside the dispatcher.\<close>

record 'w handler =
  Type :: nat
  Func :: "p2p \<Rightarrow> peer option \<Rightarrow> message \<Rightarrow> 'w \<Rightarrow> error option \<times> 'w"

text \<open>\<^verbatim>\<open>handlePeerMessage\<close>.  The registry \<^verbatim>\<open>handler.FromEnum\<close> is a parameter.  The
  result is the error returned, the world after the call, and the handler invocations
  made: (declared kind of the handler, peer, message).\<close>

definition handlePeerMessage ::
  "(nat \<Rightarrow> 'w handler option \<times> error option) \<Rightarrow> p2p \<Rightarrow> onMessage option \<Rightarrow> 'w \<Rightarrow>
   error option \<times> 'w \<times> (nat \<times> peer option \<times> message) list" where
  "handlePeerMessage FromEnum p msg w =
     (case msg of
        None \<Rightarrow> (Some (errors_New ''nil msg''), w, [])
      | Some m \<Rightarrow>
     (case Message m of
        None \<Rightarrow> (Some (errors_New ''nil message''), w, [])
      | Some mm \<Rightarrow>
     (case FromEnum (Kind mm) of
        (_, Some err) \<Rightarrow> (Some err, w, [])
      | (None, None) \<Rightarrow> (Some (errors_New ''nil handler''), w, [])
      | (Some h, None) \<Rightarrow>
          (if Type h = Kind mm then
             (case Func h p (msg_Peer m) mm w of
                (e, w') \<Rightarrow> (e, w', [(Type h, msg_Peer m, mm)]))
           else (Some (errors_New ''wrong handler''), w, [])))))"

section \<open>Dial queue and redial loop\<close>

text \<open>The constants of package \<^verbatim>\<open>defaults\<close> the loop uses, as parameters.\<close>

record defaults =
  DialInterval :: time
  DialBackoff :: time

text \<open>The answers of the network and of the peer handles during one sweep.\<close>

record netEnv =
  Host_Addrs :: "host \<Rightarrow> string list"
  IsActive :: "peer \<Rightarrow> bool \<times> error option"
  ConnsToPeer :: "string \<Rightarrow> nat list"
  DialPeer :: "string \<Rightarrow> nat option \<times> error option"
  AddConnection :: "peer \<Rightarrow> nat option \<Rightarrow> error option"

definition dialPeer :: "p2p \<Rightarrow> netEnv \<Rightarrow> peer option \<Rightarrow> error option \<times> event list" where
  "dialPeer p env pr0 =
     (case pr0 of
        None \<Rightarrow> (Some (errors_New ''cannot dial nil peer''), [])
      | Some pr \<Rightarrow>
          (if IsStarted (Host_Addrs env) p then
             (case ConnsToPeer env (Cfg_Peer_ID pr) of
                [] \<Rightarrow>
                  (case DialPeer env (Cfg_Peer_ID pr) of
                     (_, Some err) \<Rightarrow> (Some err, [LogInfo ''[p2p] dialing peer''])
                   | (conn, None) \<Rightarrow>
                       (AddConnection env pr conn, [LogInfo ''[p2p] dialing peer'']))
              | conn # _ \<Rightarrow> (AddConnection env pr (Some conn), []))
           else (Some (errors_New ''p2p host not started''), [])))"

text \<open>One iteration of \<^verbatim>\<open>for k = range p.dialQueue\<close> at time \<open>now\<close>.  A key the map does
  not hold reads as a nil pointer.\<close>

definition sweepEntry :: "defaults \<Rightarrow> time \<Rightarrow> netEnv \<Rightarrow> p2p \<Rightarrow> string \<Rightarrow> p2p \<times> event list" where
  "sweepEntry d now env p k =
     (case dialQueue p k of
        None \<Rightarrow> (p, [])
      | Some None \<Rightarrow> (p, [])
      | Some (Some e) \<Rightarrow>
          (if now < NextDial e then (p, [])
           else
             (case Peer e of
                None \<Rightarrow> (p, [])
              | Some pr \<Rightarrow>
                 (case IsActive env pr of
                    (_, Some err) \<Rightarrow> (p, [])
                  | (True, None) \<Rightarrow> (p, [])
                  | (False, None) \<Rightarrow>
                     (let p' = p\<lparr> dialQueue := (dialQueue p)
                                   (k \<mapsto> Some (e\<lparr> NextDial := NextDial e + DialBackoff d \<rparr>)) \<rparr>
                      in case dialPeer p' env (Some pr) of
                           (Some err, evs) \<Rightarrow> (p', evs @ [LogError ''[p2p] err dialing peer id''])
                         | (None, evs) \<Rightarrow> (p', evs))))))"

text \<open>A sweep visits the keys in the order the Go runtime picks, which is unspecified:
  the order is a parameter.\<close>

fun sweep :: "defaults \<Rightarrow> time \<Rightarrow> netEnv \<Rightarrow> p2p \<Rightarrow> string list \<Rightarrow> p2p \<times> event list" where
  "sweep d now env p [] = (p, [])"
| "sweep d now env p (k # ks) =
     (case sweepEntry d now env p k of
        (p', evs) \<Rightarrow> (case sweep d now env p' ks of (p'', evs') \<Rightarrow> (p'', evs @ evs')))"

text \<open>What the \<^verbatim>\<open>select\<close> of the loop receives: the cancellation of the context, or a
  tick, with the time \<^verbatim>\<open>time.Now()\<close> reads, the order of the keys and the environment
  of that sweep.\<close>

datatype select = CtxDone | Tick time "string list" netEnv

text \<open>The \<^verbatim>\<open>for { select { ... } }\<close> loop over a finite schedule: the state reached
  after these selections (the loop has returned if one of them was the cancellation,
  and is still running otherwise).\<close>

fun dialLoop :: "defaults \<Rightarrow> p2p \<Rightarrow> select list \<Rightarrow> p2p \<times> event list" where
  "dialLoop d p [] = (p, [])"
| "dialLoop d p (CtxDone # _) = (p, [LogInfo ''[p2p] context canceled. Stopping dialPeers.''])"
| "dialLoop d p (Tick now ks env # rest) =
     (case sweep d now env p ks of
        (p', evs) \<Rightarrow> (case dialLoop d p' rest of (p'', evs') \<Rightarrow> (p'', evs @ evs')))"

text \<open>The insertion at the head of \<^verbatim>\<open>dialPeers\<close>; \<open>now\<close> is what \<^verbatim>\<open>time.Now()\<close> reads.
  In \<^verbatim>\<open>dialPeers\<close> below, \<open>addrs\<close> is what the host answers to \<^verbatim>\<open>Addrs()\<close> when the call
  starts.\<close>

definition enqueue :: "p2p \<Rightarrow> peer option \<Rightarrow> time \<Rightarrow> p2p" where
  "enqueue p pr0 now =
     (case pr0 of
        None \<Rightarrow> p
      | Some pr \<Rightarrow>
          (case dialQueue p (GetID pr) of
             Some _ \<Rightarrow> p
           | None \<Rightarrow> p\<lparr> dialQueue := (dialQueue p)
                         (GetID pr \<mapsto> Some \<lparr> Peer = Some pr, NextDial = now \<rparr>) \<rparr>))"

definition dialPeers ::
  "defaults \<Rightarrow> p2p \<Rightarrow> peer option \<Rightarrow> (host \<Rightarrow> string list) \<Rightarrow> time \<Rightarrow> select list \<Rightarrow>
   p2p \<times> event list" where
  "dialPeers d p pr0 addrs now sel =
     (if IsStarted addrs p then dialLoop d (enqueue p pr0 now) sel
      else (p, [LogError ''p2p host not started'']))"

text \<open>Successive calls of \<^verbatim>\<open>dialPeers\<close> with the same peer, each with its own answer of
  the host, clock reading and schedule.\<close>

fun dialPeers_calls ::
  "defaults \<Rightarrow> p2p \<Rightarrow> peer option \<Rightarrow> ((host \<Rightarrow> string list) \<times> time \<times> select list) list \<Rightarrow> p2p" where
  "dialPeers_calls d p pr0 [] = p"
| "dialPeers_calls d p pr0 ((addrs, now, sel) # rest) =
     dialPeers_calls d (fst (dialPeers d p pr0 addrs now sel)) pr0 rest"

section \<open>Concrete nodes and environments\<close>

text \<open>A node as \<^verbatim>\<open>New\<close> returns it, the same node once \<^verbatim>\<open>Start\<close> has published a
  host, a peer, a 32-byte nonce and a remote side that echoes it.\<close>

definition cfg0 :: configClient where
  "cfg0 = \<lparr> P2P = Some \<lparr> Address = ''/ip4/127.0.0.1/tcp/39999'', Pub = ''pub'',
                          Priv = ''priv'', Context = 0 \<rparr> \<rparr>"

definition node0 :: p2p where
  "node0 = \<lparr> state = Some \<lparr> Chain = Some 0, Config = Some cfg0, SyncState = Some (),
                             Peers = Some 0, Host = None \<rparr>,
             cfg = Some cfg0, ctx = 0, ch = 0, sync = Some 0, cancel = Some 0,
             dialQueue = Map.empty \<rparr>"

definition host0 :: host where
  "host0 = \<lparr> host_ID = ''QmLocal'' \<rparr>"

text \<open>Two answers of the live host to \<^verbatim>\<open>Addrs()\<close>: one bound address while it listens,
  none once its listeners are closed.\<close>

definition boundAddrs :: "host \<Rightarrow> string list" where
  "boundAddrs h = [''/ip4/127.0.0.1/tcp/39999'']"


definition started0 :: p2p where
  "started0 = node0\<lparr> state := Some \<lparr> Chain = Some 0, Config = Some cfg0, SyncState = Some (),
                                      Peers = Some 0, Host = Some host0 \<rparr> \<rparr>"

definition peerA :: peer where
  "peerA = \<lparr> GetID = ''QmA'', Cfg_Peer_ID = ''QmA'' \<rparr>"

definition nonce0 :: "byte list" where
  "nonce0 = map of_nat [0..<32]"

definition echoStream :: stream where
  "echoStream = \<lparr> RemoteMultiaddr = ''/ip4/10.0.0.2/tcp/1'', inbound = nonce0, readErr = io_EOF \<rparr>"

definition echoEnv :: pingEnv where
  "echoEnv = \<lparr> NewStream = (\<lambda>_. (Some echoStream, None)), SetDeadline = None,
               rand_Read = of_nat, rand_Read_err = None, Flush_err = None \<rparr>"

definition msg1 :: message where
  "msg1 = \<lparr> Kind = 1, payload = [1, 2, 3] \<rparr>"

text \<open>A registry with one handler, for kind 1; it counts its invocations in the world
  and fails.\<close>

definition registry0 :: "nat \<Rightarrow> nat handler option \<times> error option" where
  "registry0 k =
     (if k = 1 then
        (Some \<lparr> Type = 1,
                Func = (\<lambda>p pr m w. (Some (ExternalError ''handler failed''), Suc w)) \<rparr>, None)
      else (None, Some (errors_New ''unknown message kind'')))"

definition d0 :: defaults where
  "d0 = \<lparr> DialInterval = 1000, DialBackoff = 5 \<rparr>"

text \<open>A network on which no peer is active and every dial fails.\<close>

definition downEnv :: netEnv where
  "downEnv = \<lparr> Host_Addrs = boundAddrs, IsActive = (\<lambda>_. (False, None)), ConnsToPeer = (\<lambda>_. []),
               DialPeer = (\<lambda>_. (None, Some (ExternalError ''dial failed''))),
               AddConnection = (\<lambda>_ _. None) \<rparr>"

definition queued0 :: p2p where
  "queued0 = started0\<lparr> dialQueue := [''QmA'' \<mapsto> Some \<lparr> Peer = Some peerA, NextDial = 100 \<rparr>] \<rparr>"

text \<open>A queue value moved forward by \<open>n\<close> backoff increments; a nil pointer stays nil.\<close>

definition pushed :: "defaults \<Rightarrow> nat \<Rightarrow> queuedPeer option \<Rightarrow> queuedPeer option" where
  "pushed d n v = map_option (\<lambda>e. e\<lparr> NextDial := NextDial e + int n * DialBackoff d \<rparr>) v"

section \<open>Theorems\<close>

declare bufio_ReadFrom.simps [simp del]

subsection \<open>Lifecycle\<close>

lemma New_node0:
  "New 0 (Some 0) 0 (Some cfg0) (Some 0) (\<lambda>_. (Some 0, None)) (\<lambda>_ _ _. (Some 0, None)) =
     (Inr node0, [])"
  by (simp add: New_def cfg0_def node0_def)

text \<open>C9: \<^verbatim>\<open>New\<close> returns \<^verbatim>\<open>ErrNoConfig\<close> for a nil config, the error "nil p2p config" for a
  nil P2P sub-config, \<^verbatim>\<open>ErrNoChainService\<close> for a nil chain collaborator (and some error
  whenever the chain collaborator is nil), the error of \<^verbatim>\<open>peers.New\<close> or of \<^verbatim>\<open>sync.New\<close>
  when one of them fails; when all of this passes it returns a node, and every node it
  returns has an empty dial queue and a state whose host is unset.\<close>

theorem New_spec:
  "(conf = None \<longrightarrow> New cx cn chn conf c pn sn = (Inl ErrNoConfig, [])) \<and>
   (\<forall>cf. conf = Some cf \<and> P2P cf = None \<longrightarrow>
       New cx cn chn conf c pn sn = (Inl (errors_New ''nil p2p config''), [])) \<and>
   (\<forall>cf pc. conf = Some cf \<and> P2P cf = Some pc \<and> c = None \<longrightarrow>
       New cx cn chn conf c pn sn = (Inl ErrNoChainService, [])) \<and>
   (c = None \<longrightarrow> (\<exists>e. fst (New cx cn chn conf c pn sn) = Inl e)) \<and>
   (\<forall>cf pc chain e. conf = Some cf \<and> P2P cf = Some pc \<and> c = Some chain \<and>
        snd (pn cf) = Some e \<longrightarrow>
       fst (New cx cn chn conf c pn sn) = Inl e) \<and>
   (\<forall>cf pc chain e. conf = Some cf \<and> P2P cf = Some pc \<and> c = Some chain \<and>
        snd (pn cf) = None \<and> snd (sn cx cf chain) = Some e \<longrightarrow>
       fst (New cx cn chn conf c pn sn) = Inl e) \<and>
   (\<forall>cf pc chain. conf = Some cf \<and> P2P cf = Some pc \<and> c = Some chain \<and>
        snd (pn cf) = None \<and> snd (sn cx cf chain) = None \<longrightarrow>
       (\<exists>p. New cx cn chn conf c pn sn = (Inr p, []))) \<and>
   (\<forall>p. fst (New cx cn chn conf c pn sn) = Inr p \<longrightarrow>
       dialQueue p = Map.empty \<and> (\<exists>s. state p = Some s \<and> Host s = None) \<and>
       \<not> IsStarted addrs p)"
  by (auto simp: New_def IsStarted_def split: option.splits prod.splits)

theorem New_spec_witness:
  "dialQueue node0 = Map.empty \<and> (\<exists>s. state node0 = Some s \<and> Host s = None) \<and>
   \<not> IsStarted boundAddrs node0 \<and>
   New 0 (Some 0) 0 None (Some 0) (\<lambda>_. (Some 0, None)) (\<lambda>_ _ _. (Some 0, None)) =
     (Inl ErrNoConfig, [])"
  using New_spec [where conf = "Some cfg0" and cx = 0 and cn = "Some 0" and chn = 0
      and c = "Some 0" and pn = "\<lambda>_. (Some 0, None)" and sn = "\<lambda>_ _ _. (Some 0, None)"
      and addrs = boundAddrs]
    New_spec [where conf = None and cx = 0 and cn = "Some 0" and chn = 0
      and c = "Some 0" and pn = "\<lambda>_. (Some 0, None)" and sn = "\<lambda>_ _ _. (Some 0, None)"]
    New_node0
  by simp

text \<open>C6: \<^verbatim>\<open>Stop()\<close> on a node whose host is still unset (no state at all, or a state with
  a nil \<^verbatim>\<open>Host\<close>) returns \<^verbatim>\<open>ErrUninitializedService\<close>, respectively \<^verbatim>\<open>ErrNoHost\<close>, fires
  no cancellation (the event list is empty) and returns the node unchanged.\<close>

theorem Stop_before_Start:
  assumes "state p = None \<or> (\<exists>s. state p = Some s \<and> Host s = None)"
  shows "Stop p = (Some (if state p = None then ErrUninitializedService else ErrNoHost), p, [])"
  using assms by (auto simp: Stop_def)

theorem Stop_before_Start_witness: "Stop node0 = (Some ErrNoHost, node0, [])"
  using Stop_before_Start [of node0] by (simp add: node0_def)




lemma Start_nil_P2P:
  assumes "cfg p = Some cf" and "P2P cf = None" and "state p = Some s" and "sync p = Some y"
  shows "Start p env = (Panicked, [])"
  using assms by (simp add: Start_def)

text \<open>C5 (the code departs from the specification): on a node whose config is set, with state and
  syncer present, but whose P2P sub-config is nil, \<^verbatim>\<open>Start()\<close> returns no error: it
  panics on \<^verbatim>\<open>p.cfg.P2P.Pub\<close>, before any call into the network library.\<close>

theorem Start_nil_P2P_panics:
  "Start (node0\<lparr> cfg := Some \<lparr> P2P = None \<rparr> \<rparr>) env = (Panicked, [])"
  by (simp add: Start_def node0_def)

subsection \<open>Stream handlers\<close>

lemma protocolHandler_closes:
  "\<exists>evs. protocolHandler p env (Some st) = (Returned (), evs @ [StreamClosed]) \<and>
         StreamClosed \<notin> set evs"
  by (auto simp: protocolHandler_def protocolHandler_body_def split: option.splits prod.splits)

lemma protocolHandler_nil_state_or_peers:
  assumes "state p = None \<or> (\<exists>s. state p = Some s \<and> Peers s = None)"
  shows "\<exists>msg. protocolHandler p env (Some st) = (Returned (), [LogError msg, StreamClosed])"
  using assms by (auto simp: protocolHandler_def protocolHandler_body_def)

text \<open>C7 (the code departs from the specification): for a non-nil stream the two lemmas above
  hold (the stream is closed exactly once, last, on every path; with a nil state or
  peer store the handler only logs).  For a nil stream \<^verbatim>\<open>protocolHandler\<close> does not log
  and return: \<^verbatim>\<open>defer stream.Close()\<close> runs before the nil check and panics.\<close>

theorem protocolHandler_nil_stream_panics:
  "protocolHandler started0 env None = (Panicked, [])"
  by (simp add: protocolHandler_def)

lemma bufio_ReadFrom_end:
  "length buf < defaultBufSize \<Longrightarrow>
   bufio_ReadFrom buf [] term = (buf, [], if term = io_EOF then None else Some term)"
  by (subst bufio_ReadFrom.simps) (simp add: Let_def)

lemma bufio_ReadFrom_short:
  assumes "length rest < defaultBufSize"
  shows "bufio_ReadFrom [] rest term = (rest, [], if term = io_EOF then None else Some term)"
proof (cases "rest = []")
  case True
  then show ?thesis using assms bufio_ReadFrom_end [of "[]" "term"] by simp
next
  case False
  have "bufio_ReadFrom [] rest term = bufio_ReadFrom rest [] term"
    using False assms
    by (subst bufio_ReadFrom.simps) (simp add: Let_def min_def defaultBufSize_def split: prod.splits)
  then show ?thesis using assms bufio_ReadFrom_end [of rest "term"] by simp
qed

lemma bufio_ReadFrom_keeps_all:
  "bufio_ReadFrom buf rest term = (pending, ws, e) \<Longrightarrow>
   concat (map written ws) @ pending = buf @ rest"
proof (induction buf rest "term" arbitrary: pending ws e rule: bufio_ReadFrom.induct)
  case (1 buf rest t)
  show ?case
  proof (cases "rest = []")
    case True
    with "1.prems" show ?thesis
      by (subst (asm) bufio_ReadFrom.simps) (auto simp: Let_def split: if_splits)
  next
    case False
    define buf1 where "buf1 = (if defaultBufSize \<le> length buf then [] else buf)"
    define ws0 where "ws0 = (if defaultBufSize \<le> length buf then [StreamWrote buf] else [])"
    define m where "m = min (defaultBufSize - length buf1) (length rest)"
    obtain b ws' e' where r: "bufio_ReadFrom (buf1 @ take m rest) (drop m rest) t = (b, ws', e')"
      by (cases "bufio_ReadFrom (buf1 @ take m rest) (drop m rest) t")
    have ih: "concat (map written ws') @ b = (buf1 @ take m rest) @ drop m rest"
      using "1.IH" [OF refl refl refl False refl, of b ws' e'] r
      by (simp add: buf1_def m_def)
    have res: "(pending, ws, e) = (b, ws0 @ ws', e')"
      using "1.prems" False r
      by (subst (asm) bufio_ReadFrom.simps) (simp add: Let_def buf1_def ws0_def m_def)
    have "concat (map written ws0) @ buf1 = buf"
      by (simp add: ws0_def buf1_def)
    with ih res show ?thesis
      by (metis Pair_inject append.assoc append_take_drop_id concat_append map_append)
  qed
qed

lemma pingHandler_written_and_pending:
  assumes "state p = Some s" and "Peers s = Some x"
    and "bufio_ReadFrom [] (inbound st) (readErr st) = (pending, ws, e)"
  shows "concat (map written (snd (pingHandler p (Some st)))) @ pending = inbound st"
  using assms bufio_ReadFrom_keeps_all [OF assms(3)]
  by (auto simp: pingHandler_def pingHandler_body_def split: option.splits)

lemma pingHandler_short_stream_writes_nothing:
  assumes "length (inbound st) < defaultBufSize"
  shows "StreamWrote bs \<notin> set (snd (pingHandler p (Some st)))"
  using bufio_ReadFrom_short [OF assms, of "readErr st"]
  by (auto simp: pingHandler_def pingHandler_body_def split: option.splits)

lemma pingHandler_closes:
  "\<exists>evs. pingHandler p (Some st) = (Returned (), evs @ [StreamClosed])"
  by (simp add: pingHandler_def)

text \<open>C8 (the code departs from the specification): on a started node, a stream that delivers a
  32-byte ping and then ends gets nothing written back.  \<^verbatim>\<open>pingHandler\<close> reads the 32
  bytes into its buffered writer, never flushes it, and closes the stream.\<close>

theorem pingHandler_no_echo:
  "pingHandler started0 (Some echoStream) = (Returned (), [StreamClosed])"
  by (simp add: pingHandler_def pingHandler_body_def started0_def node0_def echoStream_def
      nonce0_def bufio_ReadFrom_short defaultBufSize_def)

subsection \<open>Outbound ping\<close>

lemma readPong_nonempty: "rest \<noteq> [] \<Longrightarrow> readPong rest term [] 0 = Panicked"
  by (cases rest) simp_all

lemma sendPing_body_never_nil: "fst (sendPing_body env st) \<noteq> Returned None"
proof (cases "inbound st")
  case Nil
  then show ?thesis
    by (auto simp: sendPing_body_def Let_def split: option.splits)
next
  case (Cons c rest)
  then show ?thesis
    by (auto simp: sendPing_body_def Let_def split: option.splits)
qed

lemma sendPingToPeer_never_nil: "fst (sendPingToPeer p env pr) \<noteq> Returned None"
  by (auto simp: sendPingToPeer_def split: option.splits prod.splits)
     (metis fst_conv sendPing_body_never_nil)

text \<open>C1 (the code departs from the specification): the remote side echoes the 32 bytes of the
  nonce and closes; \<^verbatim>\<open>sendPingToPeer\<close> does not return nil, it panics on the first byte
  it reads back (\<^verbatim>\<open>b2[nb] = c\<close> on the empty \<^verbatim>\<open>b2\<close>), after the deferred close of the
  stream.  By the lemma above no input makes it return nil.\<close>

theorem sendPingToPeer_echo_panics:
  "sendPingToPeer started0 echoEnv (Some peerA) = (Panicked, [StreamWrote nonce0, StreamClosed])"
  by (simp add: sendPingToPeer_def sendPing_body_def started0_def node0_def echoEnv_def
      echoStream_def nonce0_def peerA_def upt_rec [of 0])

subsection \<open>Message dispatch\<close>

text \<open>C2: when the registry resolves the message's kind to a handler whose declared kind
  is that kind, \<^verbatim>\<open>handlePeerMessage\<close> makes exactly one invocation, of that handler, with
  the node, the envelope's peer and the envelope's message, and returns the handler's
  error and the world the handler leaves.  For a nil envelope, a nil message, a kind
  the registry answers with an error or with a nil handler, or a handler of another
  declared kind, it returns an error, invokes nothing and leaves the world as it is.\<close>

theorem handlePeerMessage_dispatch:
  "(\<forall>h. FromEnum (Kind mm) = (Some h, None) \<and> Type h = Kind mm \<longrightarrow>
      handlePeerMessage FromEnum p (Some \<lparr> msg_Peer = pr, Message = Some mm \<rparr>) w =
        (fst (Func h p pr mm w), snd (Func h p pr mm w), [(Type h, pr, mm)])) \<and>
   handlePeerMessage FromEnum p None w = (Some (errors_New ''nil msg''), w, []) \<and>
   handlePeerMessage FromEnum p (Some \<lparr> msg_Peer = pr, Message = None \<rparr>) w =
     (Some (errors_New ''nil message''), w, []) \<and>
   (\<forall>h e. FromEnum (Kind mm) = (h, Some e) \<longrightarrow>
      handlePeerMessage FromEnum p (Some \<lparr> msg_Peer = pr, Message = Some mm \<rparr>) w =
        (Some e, w, [])) \<and>
   (FromEnum (Kind mm) = (None, None) \<longrightarrow>
      handlePeerMessage FromEnum p (Some \<lparr> msg_Peer = pr, Message = Some mm \<rparr>) w =
        (Some (errors_New ''nil handler''), w, [])) \<and>
   (\<forall>h. FromEnum (Kind mm) = (Some h, None) \<and> Type h \<noteq> Kind mm \<longrightarrow>
      handlePeerMessage FromEnum p (Some \<lparr> msg_Peer = pr, Message = Some mm \<rparr>) w =
        (Some (errors_New ''wrong handler''), w, []))"
  by (auto simp: handlePeerMessage_def split: option.splits prod.splits)

theorem handlePeerMessage_dispatch_witness:
  "handlePeerMessage registry0 node0 (Some \<lparr> msg_Peer = Some peerA, Message = Some msg1 \<rparr>) (0::nat) =
     (Some (ExternalError ''handler failed''), 1, [(1, Some peerA, msg1)])"
  using handlePeerMessage_dispatch [of registry0 msg1 node0 "Some peerA" "0::nat"]
  by (simp add: registry0_def msg1_def)

subsection \<open>Dial queue\<close>

lemma pushed_0 [simp]: "pushed d 0 v = v"
  by (cases v) (simp_all add: pushed_def)

lemma map_pushed_0 [simp]: "map_option (pushed d 0) x = x"
  by (cases x) simp_all

lemma pushed_pushed: "pushed d m (pushed d n v) = pushed d (n + m) v"
  by (cases v) (simp_all add: pushed_def algebra_simps)

lemma sweepEntry_queue:
  "\<exists>n. dialQueue (fst (sweepEntry d now env p k)) k' = map_option (pushed d n) (dialQueue p k')"
proof (cases "dialQueue (fst (sweepEntry d now env p k)) = dialQueue p")
  case True
  then have "dialQueue (fst (sweepEntry d now env p k)) k' = map_option (pushed d 0) (dialQueue p k')"
    by simp
  then show ?thesis by blast
next
  case False
  then obtain e where e: "dialQueue p k = Some (Some e)"
    and q: "dialQueue (fst (sweepEntry d now env p k)) =
              (dialQueue p)(k \<mapsto> Some (e\<lparr> NextDial := NextDial e + DialBackoff d \<rparr>))"
    by (auto simp: sweepEntry_def Let_def split: option.splits if_splits prod.splits bool.splits)
  show ?thesis
  proof (cases "k' = k")
    case True
    with e q have "dialQueue (fst (sweepEntry d now env p k)) k' = map_option (pushed d 1) (dialQueue p k')"
      by (simp add: pushed_def)
    then show ?thesis by blast
  next
    case False
    with q have "dialQueue (fst (sweepEntry d now env p k)) k' = map_option (pushed d 0) (dialQueue p k')"
      by simp
    then show ?thesis by blast
  qed
qed

lemma pushed_trans:
  assumes "v1 = map_option (pushed d n) v0" and "v2 = map_option (pushed d m) v1"
  shows "v2 = map_option (pushed d (n + m)) v0"
  using assms by (cases v0) (simp_all add: pushed_pushed)

lemma sweep_queue:
  "\<exists>n. dialQueue (fst (sweep d now env p ks)) k' = map_option (pushed d n) (dialQueue p k')"
proof (induction ks arbitrary: p)
  case Nil
  have "dialQueue (fst (sweep d now env p [])) k' = map_option (pushed d 0) (dialQueue p k')"
    by simp
  then show ?case by blast
next
  case (Cons k ks)
  obtain p1 evs where s1: "sweepEntry d now env p k = (p1, evs)" by (cases "sweepEntry d now env p k")
  obtain n where n: "dialQueue p1 k' = map_option (pushed d n) (dialQueue p k')"
    using sweepEntry_queue [of d now env p k k'] s1 by auto
  obtain m where m: "dialQueue (fst (sweep d now env p1 ks)) k' = map_option (pushed d m) (dialQueue p1 k')"
    using Cons.IH by blast
  have "dialQueue (fst (sweep d now env p (k # ks))) k' = dialQueue (fst (sweep d now env p1 ks)) k'"
    using s1 by (simp split: prod.splits)
  with pushed_trans [OF n m] show ?case by metis
qed

lemma dialLoop_queue:
  "\<exists>n. dialQueue (fst (dialLoop d p sel)) k' = map_option (pushed d n) (dialQueue p k')"
proof (induction d p sel rule: dialLoop.induct)
  case (1 d p)
  have "dialQueue (fst (dialLoop d p [])) k' = map_option (pushed d 0) (dialQueue p k')"
    by simp
  then show ?case by blast
next
  case (2 d p uu)
  have "dialQueue (fst (dialLoop d p (CtxDone # uu))) k' = map_option (pushed d 0) (dialQueue p k')"
    by simp
  then show ?case by blast
next
  case (3 d p now ks env rest)
  obtain p1 evs where s1: "sweep d now env p ks = (p1, evs)" by (cases "sweep d now env p ks")
  obtain n where n: "dialQueue p1 k' = map_option (pushed d n) (dialQueue p k')"
    using sweep_queue [of d now env p ks k'] s1 by auto
  obtain m where m: "dialQueue (fst (dialLoop d p1 rest)) k' = map_option (pushed d m) (dialQueue p1 k')"
    using 3 s1 by fastforce
  have "dialQueue (fst (dialLoop d p (Tick now ks env # rest))) k' = dialQueue (fst (dialLoop d p1 rest)) k'"
    using s1 by (simp split: prod.splits)
  with pushed_trans [OF n m] show ?case by metis
qed


lemma dialLoop_append_queue:
  "\<exists>n. dialQueue (fst (dialLoop d p (s1 @ s2))) k' =
        map_option (pushed d n) (dialQueue (fst (dialLoop d p s1)) k')"
proof (induction d p s1 rule: dialLoop.induct)
  case (1 d p)
  show ?case using dialLoop_queue [of d p s2 k'] by simp
next
  case (2 d p uu)
  have "dialQueue (fst (dialLoop d p ((CtxDone # uu) @ s2))) k' =
        map_option (pushed d 0) (dialQueue (fst (dialLoop d p (CtxDone # uu))) k')"
    by simp
  then show ?case by blast
next
  case (3 d p now ks env rest)
  obtain p1 evs where s1: "sweep d now env p ks = (p1, evs)" by (cases "sweep d now env p ks")
  obtain n where n: "dialQueue (fst (dialLoop d p1 (rest @ s2))) k' =
        map_option (pushed d n) (dialQueue (fst (dialLoop d p1 rest)) k')"
    using 3 s1 by fastforce
  have a: "fst (dialLoop d p ((Tick now ks env # rest) @ s2)) = fst (dialLoop d p1 (rest @ s2))"
    using s1 by (simp split: prod.splits)
  have b: "fst (dialLoop d p (Tick now ks env # rest)) = fst (dialLoop d p1 rest)"
    using s1 by (simp split: prod.splits)
  from n a b show ?case by metis
qed

lemma dialPeers_append_queue:
  "\<exists>n. dialQueue (fst (dialPeers d p pr addrs now (s1 @ s2))) k' =
        map_option (pushed d n) (dialQueue (fst (dialPeers d p pr addrs now s1)) k')"
proof (cases "IsStarted addrs p")
  case True
  then show ?thesis
    using dialLoop_append_queue [of d "enqueue p pr now" s1 s2 k'] by (simp add: dialPeers_def)
next
  case False
  then have "dialQueue (fst (dialPeers d p pr addrs now (s1 @ s2))) k' =
        map_option (pushed d 0) (dialQueue (fst (dialPeers d p pr addrs now s1)) k')"
    by (simp add: dialPeers_def)
  then show ?thesis by blast
qed

lemma sweepEntry_backoff_before_dial:
  assumes "dialQueue p k = Some (Some e)" and "NextDial e \<le> now" and "Peer e = Some pr"
    and "IsActive env pr = (False, None)"
  shows "dialQueue (fst (sweepEntry d now env p k)) k =
           Some (Some (e\<lparr> NextDial := NextDial e + DialBackoff d \<rparr>))"
  using assms by (simp add: sweepEntry_def Let_def split: prod.splits option.splits)

text \<open>C3: provided the backoff constant is not negative, the \<^verbatim>\<open>NextDial\<close> of a queue
  entry never moves backward as the loop of \<^verbatim>\<open>dialPeers\<close> goes on: the entry found under
  a key after some selections is found there after any further selections with the
  same peer and a \<^verbatim>\<open>NextDial\<close> that is the earlier one plus a whole number of backoff
  increments.  (By the lemma above the increment is written before the dial is
  attempted, whatever the dial returns.)\<close>

theorem dialPeers_NextDial_monotone:
  assumes "0 \<le> DialBackoff d"
    and "dialQueue (fst (dialPeers d p pr addrs now sel1)) k = Some (Some e1)"
  shows "\<exists>e2 n. dialQueue (fst (dialPeers d p pr addrs now (sel1 @ sel2))) k = Some (Some e2) \<and>
           Peer e2 = Peer e1 \<and>
           NextDial e2 = NextDial e1 + int n * DialBackoff d \<and>
           NextDial e1 \<le> NextDial e2"
proof -
  obtain n where "dialQueue (fst (dialPeers d p pr addrs now (sel1 @ sel2))) k =
        map_option (pushed d n) (dialQueue (fst (dialPeers d p pr addrs now sel1)) k)"
    using dialPeers_append_queue by blast
  with assms(2) have "dialQueue (fst (dialPeers d p pr addrs now (sel1 @ sel2))) k =
        Some (Some (e1\<lparr> NextDial := NextDial e1 + int n * DialBackoff d \<rparr>))"
    by (simp add: pushed_def)
  moreover have "0 \<le> int n * DialBackoff d" using assms(1) by simp
  ultimately show ?thesis by force
qed

theorem dialPeers_NextDial_monotone_witness:
  "\<exists>e2 n. dialQueue (fst (dialPeers d0 queued0 None boundAddrs 0 ([] @ [Tick 200 [''QmA''] downEnv])))
             ''QmA'' = Some (Some e2) \<and>
           Peer e2 = Some peerA \<and> NextDial e2 = 100 + int n * 5 \<and> 100 \<le> NextDial e2"
proof -
  have h1: "0 \<le> DialBackoff d0" by (simp add: d0_def)
  have h2: "dialQueue (fst (dialPeers d0 queued0 None boundAddrs 0 [])) ''QmA'' =
              Some (Some \<lparr> Peer = Some peerA, NextDial = 100 \<rparr>)"
    by (simp add: dialPeers_def IsStarted_def queued0_def started0_def node0_def boundAddrs_def
        enqueue_def)
  show ?thesis
    using dialPeers_NextDial_monotone [OF h1 h2, of "[Tick 200 [''QmA''] downEnv]"]
    by (simp add: d0_def)
qed

lemma dialPeers_two_sweeps:
  "dialQueue (fst (dialPeers d0 queued0 None boundAddrs 0
      [Tick 200 [''QmA''] downEnv, Tick 300 [''QmA''] downEnv])) ''QmA'' =
   Some (Some \<lparr> Peer = Some peerA, NextDial = 110 \<rparr>)"
  by (simp add: dialPeers_def IsStarted_def queued0_def started0_def node0_def boundAddrs_def
      enqueue_def sweepEntry_def d0_def downEnv_def peerA_def dialPeer_def)

lemma dialLoop_dom: "dom (dialQueue (fst (dialLoop d p sel))) = dom (dialQueue p)"
proof -
  have "(dialQueue (fst (dialLoop d p sel)) k = None) = (dialQueue p k = None)" for k
    using dialLoop_queue [of d p sel k] by auto
  then show ?thesis by (auto simp: dom_def)
qed

lemma enqueue_dom:
  "dom (dialQueue (enqueue p (Some pr) now)) = insert (GetID pr) (dom (dialQueue p))"
  by (auto simp: enqueue_def split: option.splits)

lemma dialPeers_dom:
  "dom (dialQueue (fst (dialPeers d p (Some pr) addrs now sel))) \<subseteq> insert (GetID pr) (dom (dialQueue p))"
  by (simp add: dialPeers_def dialLoop_dom enqueue_dom subset_insertI)

lemma dialPeers_calls_dom:
  "dom (dialQueue (dialPeers_calls d p (Some pr) calls)) \<subseteq> insert (GetID pr) (dom (dialQueue p))"
proof (induction calls arbitrary: p)
  case Nil
  then show ?case by auto
next
  case (Cons c calls)
  obtain addrs now sel where c: "c = (addrs, now, sel)" by (cases c)
  let ?p1 = "fst (dialPeers d p (Some pr) addrs now sel)"
  have "dom (dialQueue (dialPeers_calls d ?p1 (Some pr) calls)) \<subseteq> insert (GetID pr) (dom (dialQueue ?p1))"
    by (rule Cons.IH)
  also have "\<dots> \<subseteq> insert (GetID pr) (dom (dialQueue p))"
    using dialPeers_dom [of d p pr addrs now sel] by auto
  finally show ?case using c by simp
qed

lemma enqueue_existing: "dialQueue p (GetID pr) = Some v \<Longrightarrow> enqueue p (Some pr) now = p"
  by (simp add: enqueue_def)

lemma enqueue_fresh:
  "dialQueue p (GetID pr) = None \<Longrightarrow>
   dialQueue (enqueue p (Some pr) now) =
     (dialQueue p)(GetID pr \<mapsto> Some \<lparr> Peer = Some pr, NextDial = now \<rparr>)"
  by (simp add: enqueue_def)

text \<open>C4: successive calls of \<^verbatim>\<open>dialPeers\<close> with one peer add at most the key of that peer
  to the dial queue, so at most one entry: the keys afterwards are among the keys
  before and the peer's ID, and a finite queue grows by at most one.  The insertion
  leaves the node as it is when the ID already has an entry, and stores one new entry
  under the ID otherwise.\<close>

theorem dialPeers_one_entry_per_peer:
  "dom (dialQueue (dialPeers_calls d p (Some pr) calls)) \<subseteq> insert (GetID pr) (dom (dialQueue p)) \<and>
   (finite (dom (dialQueue p)) \<longrightarrow>
      card (dom (dialQueue (dialPeers_calls d p (Some pr) calls))) \<le> Suc (card (dom (dialQueue p)))) \<and>
   (\<forall>v. dialQueue p (GetID pr) = Some v \<longrightarrow>
      enqueue p (Some pr) now = p \<and>
      dom (dialQueue (dialPeers_calls d p (Some pr) calls)) \<subseteq> dom (dialQueue p)) \<and>
   (dialQueue p (GetID pr) = None \<longrightarrow>
      dialQueue (enqueue p (Some pr) now) =
        (dialQueue p)(GetID pr \<mapsto> Some \<lparr> Peer = Some pr, NextDial = now \<rparr>))"
proof -
  let ?q' = "dialQueue (dialPeers_calls d p (Some pr) calls)"
  have sub: "dom ?q' \<subseteq> insert (GetID pr) (dom (dialQueue p))"
    by (rule dialPeers_calls_dom)
  have crd: "card (dom ?q') \<le> Suc (card (dom (dialQueue p)))" if fin: "finite (dom (dialQueue p))"
  proof -
    have "card (dom ?q') \<le> card (insert (GetID pr) (dom (dialQueue p)))"
      using sub fin by (simp add: card_mono)
    also have "\<dots> \<le> Suc (card (dom (dialQueue p)))"
      using fin by (simp add: card_insert_if)
    finally show ?thesis .
  qed
  have ex: "dom ?q' \<subseteq> dom (dialQueue p)" if "dialQueue p (GetID pr) = Some v" for v
    using sub that by auto
  show ?thesis
    using sub crd ex enqueue_existing enqueue_fresh by blast
qed

theorem dialPeers_one_entry_per_peer_witness:
  "card (dom (dialQueue (dialPeers_calls d0 started0 (Some peerA)
            [(boundAddrs, 100, [Tick 200 [''QmA''] downEnv]), (boundAddrs, 300, [CtxDone])]))) \<le> Suc 0"
  using dialPeers_one_entry_per_peer
    [of d0 started0 peerA "[(boundAddrs, 100, [Tick 200 [''QmA''] downEnv]), (boundAddrs, 300, [CtxDone])]" 0]
  by (simp add: started0_def node0_def)

lemma dialPeers_called_twice:
  "dialQueue (dialPeers_calls d0 started0 (Some peerA)
      [(boundAddrs, 100, [Tick 200 [''QmA''] downEnv]), (boundAddrs, 300, [CtxDone])]) =
   [''QmA'' \<mapsto> Some \<lparr> Peer = Some peerA, NextDial = 105 \<rparr>]"
  by (simp add: dialPeers_def IsStarted_def started0_def node0_def boundAddrs_def enqueue_def
      sweepEntry_def d0_def downEnv_def peerA_def dialPeer_def)

end
